theory Spec2Isabelle
  imports Main "HOL-Library.Multiset"
begin

section \<open>Objects, the console and run-time errors\<close>

text \<open>
  The repository holds two independent TypeScript units, one after the other in the source
  text: the factory-method example (notifications) and the abstract-factory example
  (department reports). Each declares its own \<^verbatim>\<open>someClientCode\<close>, so the two
  clients carry the name of their unit here. Every class is stateless, so an object is its
  identity (an address) together with the class it was instantiated from. The only
  observable effect is \<^verbatim>\<open>console.log\<close>, which appends one line to the output.
\<close>

datatype cls =
    EmailNotification | SMSNotification | PushNotification
  | EmailNotificationFactory | SMSNotificationFactory | PushNotificationFactory
  | SalesPDFReport | HRPDFReport
  | SalesExcelReport | HRExcelReport
  | SalesHTMLReport | HRHTMLReport
  | SalesReportFactory | HRReportFactory

type_synonym ref = nat

record world =
  heap :: "cls list"
  console :: "string list"

text \<open>Calling a method that the receiver does not have is JavaScript's TypeError.\<close>

datatype error = TypeError

definition initial :: world where
  "initial = \<lparr>heap = [], console = []\<rparr>"

definition console_log :: "string \<Rightarrow> world \<Rightarrow> world" where
  "console_log line w = w\<lparr>console := console w @ [line]\<rparr>"

text \<open>\<^verbatim>\<open>new C()\<close>: the next free address now holds an instance of \<open>C\<close>.\<close>

definition new_object :: "cls \<Rightarrow> world \<Rightarrow> ref \<times> world" where
  "new_object c w = (length (heap w), w\<lparr>heap := heap w @ [c]\<rparr>)"

definition class_of :: "world \<Rightarrow> ref \<Rightarrow> cls option" where
  "class_of w r = (if r < length (heap w) then Some (heap w ! r) else None)"

definition and_then :: "error + 'a \<Rightarrow> ('a \<Rightarrow> error + 'b) \<Rightarrow> error + 'b" where
  "and_then m k = (case m of Inl e \<Rightarrow> Inl e | Inr x \<Rightarrow> k x)"

section \<open>Factory method: notifications\<close>

text \<open>The classes that extend the abstract class \<^verbatim>\<open>NotificationFactory\<close>.\<close>

fun extends_NotificationFactory :: "cls \<Rightarrow> bool" where
  "extends_NotificationFactory EmailNotificationFactory = True"
| "extends_NotificationFactory SMSNotificationFactory = True"
| "extends_NotificationFactory PushNotificationFactory = True"
| "extends_NotificationFactory _ = False"

text \<open>The classes that implement the interface \<^verbatim>\<open>INotification\<close>.\<close>

fun implements_INotification :: "cls \<Rightarrow> bool" where
  "implements_INotification EmailNotification = True"
| "implements_INotification SMSNotification = True"
| "implements_INotification PushNotification = True"
| "implements_INotification _ = False"

text \<open>\<^verbatim>\<open>createNotification\<close> is abstract in the base class; each factory overrides it.\<close>

definition createNotification :: "ref \<Rightarrow> world \<Rightarrow> error + ref \<times> world" where
  "createNotification this w =
     (case class_of w this of
        Some EmailNotificationFactory \<Rightarrow> Inr (new_object EmailNotification w)
      | Some SMSNotificationFactory \<Rightarrow> Inr (new_object SMSNotification w)
      | Some PushNotificationFactory \<Rightarrow> Inr (new_object PushNotification w)
      | _ \<Rightarrow> Inl TypeError)"

text \<open>
  \<^verbatim>\<open>sendNotification\<close> is one method name with four bodies: the three notification
  classes print their line, and the factories inherit the template of
  \<^verbatim>\<open>NotificationFactory\<close>, which calls \<^verbatim>\<open>sendNotification\<close> on the object it created.
\<close>

function sendNotification :: "ref \<Rightarrow> world \<Rightarrow> error + world" where
  "sendNotification this w =
     (case class_of w this of
        None \<Rightarrow> Inl TypeError
      | Some c \<Rightarrow>
          if c = EmailNotification then Inr (console_log ''Email notification sent'' w)
          else if c = SMSNotification then Inr (console_log ''SMS notification sent'' w)
          else if c = PushNotification then Inr (console_log ''Push notification sent'' w)
          else if extends_NotificationFactory c then
            (case createNotification this w of
               Inl e \<Rightarrow> Inl e
             | Inr (notification, w1) \<Rightarrow>
                 (case sendNotification notification w1 of
                    Inl e \<Rightarrow> Inl e
                  | Inr w2 \<Rightarrow> Inr (console_log ''Notification registered'' w2)))
          else Inl TypeError)"
  by pat_completeness auto
termination
proof (relation "measure (\<lambda>(r, w). case class_of w r of
          Some c \<Rightarrow> (if extends_NotificationFactory c then 1 else 0) | None \<Rightarrow> 0)")
  show "wf (measure (\<lambda>(r, w). case class_of w r of
          Some c \<Rightarrow> (if extends_NotificationFactory c then 1 else 0) | None \<Rightarrow> 0))"
    by simp
next
  fix this w c x notification w1
  assume "class_of w this = Some c" "extends_NotificationFactory c"
    and "createNotification this w = Inr x" "(notification, w1) = x"
  then show "((notification, w1), (this, w)) \<in> measure (\<lambda>(r, w). case class_of w r of
          Some c \<Rightarrow> (if extends_NotificationFactory c then 1 else 0) | None \<Rightarrow> 0)"
    by (cases c) (auto simp: createNotification_def new_object_def class_of_def)
qed

declare sendNotification.simps [simp del]

text \<open>The client of the factory-method unit and that unit's top-level statements.\<close>

definition someClientCode_notification :: "ref \<Rightarrow> world \<Rightarrow> error + world" where
  "someClientCode_notification factory w = sendNotification factory w"

definition factory_method_usage :: "world \<Rightarrow> error + world" where
  "factory_method_usage w =
     (case new_object EmailNotificationFactory w of (f1, w1) \<Rightarrow>
      and_then (someClientCode_notification f1 w1) (\<lambda>w2.
      case new_object SMSNotificationFactory w2 of (f2, w3) \<Rightarrow>
      and_then (someClientCode_notification f2 w3) (\<lambda>w4.
      case new_object PushNotificationFactory w4 of (f3, w5) \<Rightarrow>
      someClientCode_notification f3 w5)))"

section \<open>Abstract factory: department reports\<close>

text \<open>The classes that extend the abstract class \<^verbatim>\<open>AbstractReportFactory\<close>.\<close>

fun extends_AbstractReportFactory :: "cls \<Rightarrow> bool" where
  "extends_AbstractReportFactory SalesReportFactory = True"
| "extends_AbstractReportFactory HRReportFactory = True"
| "extends_AbstractReportFactory _ = False"

text \<open>
  \<^verbatim>\<open>generate\<close> is abstract in \<^verbatim>\<open>PDFReport\<close>, \<^verbatim>\<open>ExcelReport\<close> and \<^verbatim>\<open>HTMLReport\<close>;
  the six concrete report classes each print their own line.
\<close>

definition generate :: "ref \<Rightarrow> world \<Rightarrow> error + world" where
  "generate this w =
     (case class_of w this of
        Some SalesPDFReport \<Rightarrow> Inr (console_log ''Sales PDF report generated'' w)
      | Some HRPDFReport \<Rightarrow> Inr (console_log ''HR PDF report generated'' w)
      | Some SalesExcelReport \<Rightarrow> Inr (console_log ''Sales Excel report generated'' w)
      | Some HRExcelReport \<Rightarrow> Inr (console_log ''HR Excel report generated'' w)
      | Some SalesHTMLReport \<Rightarrow> Inr (console_log ''Sales HTML report generated'' w)
      | Some HRHTMLReport \<Rightarrow> Inr (console_log ''HR HTML report generated'' w)
      | _ \<Rightarrow> Inl TypeError)"

definition createPDFReport :: "ref \<Rightarrow> world \<Rightarrow> error + ref \<times> world" where
  "createPDFReport this w =
     (case class_of w this of
        Some SalesReportFactory \<Rightarrow> Inr (new_object SalesPDFReport w)
      | Some HRReportFactory \<Rightarrow> Inr (new_object HRPDFReport w)
      | _ \<Rightarrow> Inl TypeError)"

definition createExcelReport :: "ref \<Rightarrow> world \<Rightarrow> error + ref \<times> world" where
  "createExcelReport this w =
     (case class_of w this of
        Some SalesReportFactory \<Rightarrow> Inr (new_object SalesExcelReport w)
      | Some HRReportFactory \<Rightarrow> Inr (new_object HRExcelReport w)
      | _ \<Rightarrow> Inl TypeError)"

definition createHTMLReport :: "ref \<Rightarrow> world \<Rightarrow> error + ref \<times> world" where
  "createHTMLReport this w =
     (case class_of w this of
        Some SalesReportFactory \<Rightarrow> Inr (new_object SalesHTMLReport w)
      | Some HRReportFactory \<Rightarrow> Inr (new_object HRHTMLReport w)
      | _ \<Rightarrow> Inl TypeError)"

text \<open>The client of the abstract-factory unit and that unit's top-level statements.\<close>

definition someClientCode_report :: "ref \<Rightarrow> world \<Rightarrow> error + world" where
  "someClientCode_report factory w =
     and_then (createPDFReport factory w) (\<lambda>(pdfReport, w1).
     and_then (generate pdfReport w1) (\<lambda>w2.
     and_then (createExcelReport factory w2) (\<lambda>(excelReport, w3).
     and_then (generate excelReport w3) (\<lambda>w4.
     and_then (createHTMLReport factory w4) (\<lambda>(htmlReport, w5).
     generate htmlReport w5)))))"

definition abstract_factory_usage :: "world \<Rightarrow> error + world" where
  "abstract_factory_usage w =
     (case new_object SalesReportFactory w of (f1, w1) \<Rightarrow>
      and_then (someClientCode_report f1 w1) (\<lambda>w2.
      case new_object HRReportFactory w2 of (f2, w3) \<Rightarrow>
      someClientCode_report f2 w3))"

text \<open>
  The demonstration: the statements of the factory-method unit, then those of the
  abstract-factory unit, in the order of the source, writing to one console.
\<close>

definition demonstration :: "world \<Rightarrow> error + world" where
  "demonstration w = and_then (factory_method_usage w) abstract_factory_usage"

section \<open>Vocabulary for the properties\<close>

text \<open>What a run appended to the console.\<close>

definition emitted :: "world \<Rightarrow> world \<Rightarrow> string list" where
  "emitted w w' = drop (length (console w)) (console w')"

text \<open>The department whose name a class carries, and the lines that start with it.\<close>

datatype department = Sales | HR

fun department_of :: "cls \<Rightarrow> department option" where
  "department_of SalesPDFReport = Some Sales"
| "department_of SalesExcelReport = Some Sales"
| "department_of SalesHTMLReport = Some Sales"
| "department_of SalesReportFactory = Some Sales"
| "department_of HRPDFReport = Some HR"
| "department_of HRExcelReport = Some HR"
| "department_of HRHTMLReport = Some HR"
| "department_of HRReportFactory = Some HR"
| "department_of _ = None"

fun department_name :: "department \<Rightarrow> string" where
  "department_name Sales = ''Sales''"
| "department_name HR = ''HR''"

definition tagged :: "department \<Rightarrow> string \<Rightarrow> bool" where
  "tagged d line = (take (length (department_name d)) line = department_name d)"

fun other_department :: "department \<Rightarrow> department" where
  "other_department Sales = HR"
| "other_department HR = Sales"

text \<open>The report family (the abstract base class) of a report class.\<close>

datatype report_family = PDF | Excel | HTML

fun family_of :: "cls \<Rightarrow> report_family option" where
  "family_of SalesPDFReport = Some PDF"
| "family_of HRPDFReport = Some PDF"
| "family_of SalesExcelReport = Some Excel"
| "family_of HRExcelReport = Some Excel"
| "family_of SalesHTMLReport = Some HTML"
| "family_of HRHTMLReport = Some HTML"
| "family_of _ = None"

text \<open>One create-then-generate step of the report client, and a run of steps in any order.\<close>

fun create_report :: "report_family \<Rightarrow> ref \<Rightarrow> world \<Rightarrow> error + ref \<times> world" where
  "create_report PDF factory w = createPDFReport factory w"
| "create_report Excel factory w = createExcelReport factory w"
| "create_report HTML factory w = createHTMLReport factory w"

definition report_step :: "report_family \<Rightarrow> ref \<Rightarrow> world \<Rightarrow> error + world" where
  "report_step fam factory w =
     and_then (create_report fam factory w) (\<lambda>(report, w1). generate report w1)"

fun report_steps :: "report_family list \<Rightarrow> ref \<Rightarrow> world \<Rightarrow> error + world" where
  "report_steps [] factory w = Inr w"
| "report_steps (fam # fams) factory w =
     and_then (report_step fam factory w) (report_steps fams factory)"

text \<open>The four creation operations, and one of them invoked \<open>n\<close> times in a row.\<close>

datatype creation = CreateNotification | CreatePDFReport | CreateExcelReport | CreateHTMLReport

fun create :: "creation \<Rightarrow> ref \<Rightarrow> world \<Rightarrow> error + ref \<times> world" where
  "create CreateNotification factory w = createNotification factory w"
| "create CreatePDFReport factory w = createPDFReport factory w"
| "create CreateExcelReport factory w = createExcelReport factory w"
| "create CreateHTMLReport factory w = createHTMLReport factory w"

fun create_times :: "nat \<Rightarrow> creation \<Rightarrow> ref \<Rightarrow> world \<Rightarrow> error + ref list \<times> world" where
  "create_times 0 op factory w = Inr ([], w)"
| "create_times (Suc n) op factory w =
     and_then (create op factory w) (\<lambda>(r, w1).
     and_then (create_times n op factory w1) (\<lambda>(rs, w2). Inr (r # rs, w2)))"

text \<open>Which classes offer which creation operation.\<close>

fun offers :: "cls \<Rightarrow> creation \<Rightarrow> bool" where
  "offers c CreateNotification = extends_NotificationFactory c"
| "offers c _ = extends_AbstractReportFactory c"

text \<open>
  The nine product classes, and the one operation a product has:
  \<^verbatim>\<open>sendNotification\<close> for a notification, \<^verbatim>\<open>generate\<close> for a report.
\<close>

definition is_product :: "cls \<Rightarrow> bool" where
  "is_product c = (implements_INotification c \<or> family_of c \<noteq> None)"

definition product_operation :: "ref \<Rightarrow> world \<Rightarrow> error + world" where
  "product_operation product w =
     (case class_of w product of
        None \<Rightarrow> Inl TypeError
      | Some c \<Rightarrow>
          if implements_INotification c then sendNotification product w
          else generate product w)"

section \<open>Facts about the heap and the console\<close>

lemma class_of_alloc:
  "class_of (w\<lparr>heap := heap w @ [c]\<rparr>) r = (if r = length (heap w) then Some c else class_of w r)"
  by (auto simp: class_of_def nth_append)

lemma class_of_console_log: "class_of (console_log line w) r = class_of w r"
  by (simp add: class_of_def console_log_def)

lemma heap_console_log: "heap (console_log line w) = heap w"
  by (simp add: console_log_def)

lemma console_console_log: "console (console_log line w) = console w @ [line]"
  by (simp add: console_log_def)

lemma class_of_allocated: "class_of w r = Some c \<Longrightarrow> r < length (heap w)"
  by (simp add: class_of_def split: if_splits)

lemma sendNotification_Email:
  "class_of w r = Some EmailNotification \<Longrightarrow>
   sendNotification r w = Inr (console_log ''Email notification sent'' w)"
  by (simp add: sendNotification.simps)

lemma sendNotification_SMS:
  "class_of w r = Some SMSNotification \<Longrightarrow>
   sendNotification r w = Inr (console_log ''SMS notification sent'' w)"
  by (simp add: sendNotification.simps)

lemma sendNotification_Push:
  "class_of w r = Some PushNotification \<Longrightarrow>
   sendNotification r w = Inr (console_log ''Push notification sent'' w)"
  by (simp add: sendNotification.simps)

lemma createNotification_Email:
  "class_of w f = Some EmailNotificationFactory \<Longrightarrow>
   createNotification f w = Inr (length (heap w), w\<lparr>heap := heap w @ [EmailNotification]\<rparr>)"
  by (simp add: createNotification_def new_object_def)

lemma createNotification_SMS:
  "class_of w f = Some SMSNotificationFactory \<Longrightarrow>
   createNotification f w = Inr (length (heap w), w\<lparr>heap := heap w @ [SMSNotification]\<rparr>)"
  by (simp add: createNotification_def new_object_def)

lemma createNotification_Push:
  "class_of w f = Some PushNotificationFactory \<Longrightarrow>
   createNotification f w = Inr (length (heap w), w\<lparr>heap := heap w @ [PushNotification]\<rparr>)"
  by (simp add: createNotification_def new_object_def)

lemma sendNotification_EmailFactory:
  assumes "class_of w f = Some EmailNotificationFactory"
  shows "sendNotification f w = Inr (console_log ''Notification registered''
           (console_log ''Email notification sent'' (w\<lparr>heap := heap w @ [EmailNotification]\<rparr>)))"
proof -
  have "sendNotification (length (heap w)) (w\<lparr>heap := heap w @ [EmailNotification]\<rparr>)
      = Inr (console_log ''Email notification sent'' (w\<lparr>heap := heap w @ [EmailNotification]\<rparr>))"
    by (rule sendNotification_Email) (simp add: class_of_alloc)
  then show ?thesis
    by (subst sendNotification.simps) (simp add: assms createNotification_Email)
qed

lemma sendNotification_SMSFactory:
  assumes "class_of w f = Some SMSNotificationFactory"
  shows "sendNotification f w = Inr (console_log ''Notification registered''
           (console_log ''SMS notification sent'' (w\<lparr>heap := heap w @ [SMSNotification]\<rparr>)))"
proof -
  have "sendNotification (length (heap w)) (w\<lparr>heap := heap w @ [SMSNotification]\<rparr>)
      = Inr (console_log ''SMS notification sent'' (w\<lparr>heap := heap w @ [SMSNotification]\<rparr>))"
    by (rule sendNotification_SMS) (simp add: class_of_alloc)
  then show ?thesis
    by (subst sendNotification.simps) (simp add: assms createNotification_SMS)
qed

lemma sendNotification_PushFactory:
  assumes "class_of w f = Some PushNotificationFactory"
  shows "sendNotification f w = Inr (console_log ''Notification registered''
           (console_log ''Push notification sent'' (w\<lparr>heap := heap w @ [PushNotification]\<rparr>)))"
proof -
  have "sendNotification (length (heap w)) (w\<lparr>heap := heap w @ [PushNotification]\<rparr>)
      = Inr (console_log ''Push notification sent'' (w\<lparr>heap := heap w @ [PushNotification]\<rparr>))"
    by (rule sendNotification_Push) (simp add: class_of_alloc)
  then show ?thesis
    by (subst sendNotification.simps) (simp add: assms createNotification_Push)
qed

lemmas world_simps = class_of_alloc class_of_console_log heap_console_log console_console_log

section \<open>Factory method: what a dispatch prints\<close>

text \<open>
  Claim C5. Calling \<^verbatim>\<open>sendNotification\<close> on an \<^verbatim>\<open>EmailNotificationFactory\<close> succeeds
  and appends exactly the line "Email notification sent" followed by the line
  "Notification registered" to the console.
\<close>

theorem email_dispatch_output:
  assumes "class_of w factory = Some EmailNotificationFactory"
  shows "\<exists>w'. sendNotification factory w = Inr w' \<and>
           console w' = console w @ [''Email notification sent'', ''Notification registered'']"
  using sendNotification_EmailFactory [OF assms] by (simp add: world_simps)

theorem email_dispatch_output_witness:
  "class_of \<lparr>heap = [EmailNotificationFactory], console = []\<rparr> 0 = Some EmailNotificationFactory \<and>
   (\<exists>w'. sendNotification 0 \<lparr>heap = [EmailNotificationFactory], console = []\<rparr> = Inr w' \<and>
      console w' = [''Email notification sent'', ''Notification registered''])"
proof -
  have h: "class_of \<lparr>heap = [EmailNotificationFactory], console = []\<rparr> 0 = Some EmailNotificationFactory"
    by (simp add: class_of_def)
  show ?thesis using h email_dispatch_output [OF h] by simp
qed

text \<open>
  Claim C2. For each of the three notification factories, \<^verbatim>\<open>sendNotification\<close> on
  the factory has exactly two observable effects, in order: the line that the product
  created by \<^verbatim>\<open>createNotification\<close> prints when it is sent, then the fixed line
  "Notification registered".
\<close>

theorem dispatch_two_effects:
  assumes "class_of w factory = Some c" and "extends_NotificationFactory c"
  shows "\<exists>product w1 w2 w' announce.
           createNotification factory w = Inr (product, w1) \<and> console w1 = console w \<and>
           sendNotification product w1 = Inr w2 \<and> console w2 = console w1 @ [announce] \<and>
           sendNotification factory w = Inr w' \<and>
           console w' = console w @ [announce, ''Notification registered'']"
proof (cases c)
  case EmailNotificationFactory
  with assms have f: "class_of w factory = Some EmailNotificationFactory" by simp
  have "sendNotification (length (heap w)) (w\<lparr>heap := heap w @ [EmailNotification]\<rparr>)
      = Inr (console_log ''Email notification sent'' (w\<lparr>heap := heap w @ [EmailNotification]\<rparr>))"
    by (rule sendNotification_Email) (simp add: class_of_alloc)
  then show ?thesis
    using createNotification_Email [OF f] sendNotification_EmailFactory [OF f]
    by (simp add: world_simps)
next
  case SMSNotificationFactory
  with assms have f: "class_of w factory = Some SMSNotificationFactory" by simp
  have "sendNotification (length (heap w)) (w\<lparr>heap := heap w @ [SMSNotification]\<rparr>)
      = Inr (console_log ''SMS notification sent'' (w\<lparr>heap := heap w @ [SMSNotification]\<rparr>))"
    by (rule sendNotification_SMS) (simp add: class_of_alloc)
  then show ?thesis
    using createNotification_SMS [OF f] sendNotification_SMSFactory [OF f]
    by (simp add: world_simps)
next
  case PushNotificationFactory
  with assms have f: "class_of w factory = Some PushNotificationFactory" by simp
  have "sendNotification (length (heap w)) (w\<lparr>heap := heap w @ [PushNotification]\<rparr>)
      = Inr (console_log ''Push notification sent'' (w\<lparr>heap := heap w @ [PushNotification]\<rparr>))"
    by (rule sendNotification_Push) (simp add: class_of_alloc)
  then show ?thesis
    using createNotification_Push [OF f] sendNotification_PushFactory [OF f]
    by (simp add: world_simps)
qed (use assms in simp_all)

theorem dispatch_two_effects_witness:
  "class_of \<lparr>heap = [SMSNotificationFactory], console = []\<rparr> 0 = Some SMSNotificationFactory \<and>
   extends_NotificationFactory SMSNotificationFactory \<and>
   (\<exists>product w1 w2 w' announce.
      createNotification 0 \<lparr>heap = [SMSNotificationFactory], console = []\<rparr> = Inr (product, w1) \<and>
      console w1 = [] \<and>
      sendNotification product w1 = Inr w2 \<and> console w2 = console w1 @ [announce] \<and>
      sendNotification 0 \<lparr>heap = [SMSNotificationFactory], console = []\<rparr> = Inr w' \<and>
      console w' = [announce, ''Notification registered''])"
proof -
  have h: "class_of \<lparr>heap = [SMSNotificationFactory], console = []\<rparr> 0 = Some SMSNotificationFactory"
    by (simp add: class_of_def)
  have e: "extends_NotificationFactory SMSNotificationFactory" by simp
  show ?thesis using h e dispatch_two_effects [OF h e] by simp
qed

lemma factory_sendNotification_console:
  assumes "class_of w factory = Some c" and "extends_NotificationFactory c"
  shows "\<exists>w' announce. sendNotification factory w = Inr w' \<and>
           console w' = console w @ [announce, ''Notification registered'']"
proof (cases c)
  case EmailNotificationFactory
  with assms have "class_of w factory = Some EmailNotificationFactory" by simp
  from sendNotification_EmailFactory [OF this] show ?thesis by (simp add: world_simps)
next
  case SMSNotificationFactory
  with assms have "class_of w factory = Some SMSNotificationFactory" by simp
  from sendNotification_SMSFactory [OF this] show ?thesis by (simp add: world_simps)
next
  case PushNotificationFactory
  with assms have "class_of w factory = Some PushNotificationFactory" by simp
  from sendNotification_PushFactory [OF this] show ?thesis by (simp add: world_simps)
qed (use assms in simp_all)

text \<open>
  Claim C9. The confirmation line is one shared string: whichever two notification
  factories are dispatched, in whichever worlds, each run succeeds, appends two lines, and
  ends with the same line "Notification registered", which the template inherited from
  \<^verbatim>\<open>NotificationFactory\<close> prints.
\<close>

theorem confirmation_line_shared:
  assumes "class_of w factory = Some c" and "extends_NotificationFactory c"
    and "class_of v factory' = Some c'" and "extends_NotificationFactory c'"
  shows "\<exists>w' v'. sendNotification factory w = Inr w' \<and> sendNotification factory' v = Inr v' \<and>
           length (console w') = length (console w) + 2 \<and>
           length (console v') = length (console v) + 2 \<and>
           last (console w') = ''Notification registered'' \<and>
           last (console v') = last (console w')"
proof -
  obtain w' a where w': "sendNotification factory w = Inr w'"
      "console w' = console w @ [a, ''Notification registered'']"
    using factory_sendNotification_console [OF assms(1,2)] by blast
  obtain v' b where v': "sendNotification factory' v = Inr v'"
      "console v' = console v @ [b, ''Notification registered'']"
    using factory_sendNotification_console [OF assms(3,4)] by blast
  show ?thesis using w' v' by simp
qed

theorem confirmation_line_shared_witness:
  "class_of \<lparr>heap = [EmailNotificationFactory, PushNotificationFactory], console = []\<rparr> 0
     = Some EmailNotificationFactory \<and>
   extends_NotificationFactory EmailNotificationFactory \<and>
   class_of \<lparr>heap = [EmailNotificationFactory, PushNotificationFactory], console = []\<rparr> 1
     = Some PushNotificationFactory \<and>
   extends_NotificationFactory PushNotificationFactory \<and>
   (\<exists>w' v'.
      sendNotification 0 \<lparr>heap = [EmailNotificationFactory, PushNotificationFactory], console = []\<rparr>
        = Inr w' \<and>
      sendNotification 1 \<lparr>heap = [EmailNotificationFactory, PushNotificationFactory], console = []\<rparr>
        = Inr v' \<and>
      length (console w') = 2 \<and> length (console v') = 2 \<and>
      last (console w') = ''Notification registered'' \<and>
      last (console v') = last (console w'))"
proof -
  let ?W = "\<lparr>heap = [EmailNotificationFactory, PushNotificationFactory], console = []\<rparr>"
  have h1: "class_of ?W 0 = Some EmailNotificationFactory" by (simp add: class_of_def)
  have h2: "class_of ?W 1 = Some PushNotificationFactory" by (simp add: class_of_def)
  have e1: "extends_NotificationFactory EmailNotificationFactory" by simp
  have e2: "extends_NotificationFactory PushNotificationFactory" by simp
  show ?thesis using h1 h2 e1 e2 confirmation_line_shared [OF h1 e1 h2 e2] by auto
qed

section \<open>Abstract factory: what a factory creates and what the client prints\<close>

lemmas report_defs = createPDFReport_def createExcelReport_def createHTMLReport_def
  generate_def new_object_def and_then_def

lemma someClientCode_report_Sales:
  assumes "class_of w factory = Some SalesReportFactory"
  shows "someClientCode_report factory w =
           Inr (w\<lparr>heap := heap w @ [SalesPDFReport, SalesExcelReport, SalesHTMLReport],
                  console := console w @ [''Sales PDF report generated'',
                    ''Sales Excel report generated'', ''Sales HTML report generated'']\<rparr>)"
  using assms class_of_allocated [OF assms]
  by (simp add: someClientCode_report_def report_defs console_log_def class_of_def nth_append)

lemma someClientCode_report_HR:
  assumes "class_of w factory = Some HRReportFactory"
  shows "someClientCode_report factory w =
           Inr (w\<lparr>heap := heap w @ [HRPDFReport, HRExcelReport, HRHTMLReport],
                  console := console w @ [''HR PDF report generated'',
                    ''HR Excel report generated'', ''HR HTML report generated'']\<rparr>)"
  using assms class_of_allocated [OF assms]
  by (simp add: someClientCode_report_def report_defs console_log_def class_of_def nth_append)

text \<open>
  Claim C4. The class of the object a factory creates is the one its own class names:
  \<^verbatim>\<open>EmailNotificationFactory\<close>, \<^verbatim>\<open>SMSNotificationFactory\<close> and
  \<^verbatim>\<open>PushNotificationFactory\<close> create an \<^verbatim>\<open>EmailNotification\<close>, an
  \<^verbatim>\<open>SMSNotification\<close> and a \<^verbatim>\<open>PushNotification\<close>; the three creation
  operations of \<^verbatim>\<open>SalesReportFactory\<close> create the Sales PDF, Excel and HTML reports,
  and those of \<^verbatim>\<open>HRReportFactory\<close> the HR ones.
\<close>

theorem creator_product_round_trip:
  assumes "class_of w factory = Some c"
  shows "(c = EmailNotificationFactory \<longrightarrow>
            (\<exists>p w'. createNotification factory w = Inr (p, w') \<and>
               class_of w' p = Some EmailNotification)) \<and>
         (c = SMSNotificationFactory \<longrightarrow>
            (\<exists>p w'. createNotification factory w = Inr (p, w') \<and>
               class_of w' p = Some SMSNotification)) \<and>
         (c = PushNotificationFactory \<longrightarrow>
            (\<exists>p w'. createNotification factory w = Inr (p, w') \<and>
               class_of w' p = Some PushNotification)) \<and>
         (c = SalesReportFactory \<longrightarrow>
            (\<exists>p w'. createPDFReport factory w = Inr (p, w') \<and>
               class_of w' p = Some SalesPDFReport) \<and>
            (\<exists>p w'. createExcelReport factory w = Inr (p, w') \<and>
               class_of w' p = Some SalesExcelReport) \<and>
            (\<exists>p w'. createHTMLReport factory w = Inr (p, w') \<and>
               class_of w' p = Some SalesHTMLReport)) \<and>
         (c = HRReportFactory \<longrightarrow>
            (\<exists>p w'. createPDFReport factory w = Inr (p, w') \<and>
               class_of w' p = Some HRPDFReport) \<and>
            (\<exists>p w'. createExcelReport factory w = Inr (p, w') \<and>
               class_of w' p = Some HRExcelReport) \<and>
            (\<exists>p w'. createHTMLReport factory w = Inr (p, w') \<and>
               class_of w' p = Some HRHTMLReport))"
  using assms
  by (simp add: createNotification_def report_defs world_simps)

theorem creator_product_round_trip_witness:
  "(\<exists>p w'. createNotification 0 \<lparr>heap = [EmailNotificationFactory, SMSNotificationFactory,
        PushNotificationFactory, SalesReportFactory, HRReportFactory], console = []\<rparr> = Inr (p, w') \<and>
      class_of w' p = Some EmailNotification) \<and>
   (\<exists>p w'. createNotification 1 \<lparr>heap = [EmailNotificationFactory, SMSNotificationFactory,
        PushNotificationFactory, SalesReportFactory, HRReportFactory], console = []\<rparr> = Inr (p, w') \<and>
      class_of w' p = Some SMSNotification) \<and>
   (\<exists>p w'. createNotification 2 \<lparr>heap = [EmailNotificationFactory, SMSNotificationFactory,
        PushNotificationFactory, SalesReportFactory, HRReportFactory], console = []\<rparr> = Inr (p, w') \<and>
      class_of w' p = Some PushNotification) \<and>
   (\<exists>p w'. createPDFReport 3 \<lparr>heap = [EmailNotificationFactory, SMSNotificationFactory,
        PushNotificationFactory, SalesReportFactory, HRReportFactory], console = []\<rparr> = Inr (p, w') \<and>
      class_of w' p = Some SalesPDFReport) \<and>
   (\<exists>p w'. createExcelReport 3 \<lparr>heap = [EmailNotificationFactory, SMSNotificationFactory,
        PushNotificationFactory, SalesReportFactory, HRReportFactory], console = []\<rparr> = Inr (p, w') \<and>
      class_of w' p = Some SalesExcelReport) \<and>
   (\<exists>p w'. createHTMLReport 3 \<lparr>heap = [EmailNotificationFactory, SMSNotificationFactory,
        PushNotificationFactory, SalesReportFactory, HRReportFactory], console = []\<rparr> = Inr (p, w') \<and>
      class_of w' p = Some SalesHTMLReport) \<and>
   (\<exists>p w'. createPDFReport 4 \<lparr>heap = [EmailNotificationFactory, SMSNotificationFactory,
        PushNotificationFactory, SalesReportFactory, HRReportFactory], console = []\<rparr> = Inr (p, w') \<and>
      class_of w' p = Some HRPDFReport) \<and>
   (\<exists>p w'. createExcelReport 4 \<lparr>heap = [EmailNotificationFactory, SMSNotificationFactory,
        PushNotificationFactory, SalesReportFactory, HRReportFactory], console = []\<rparr> = Inr (p, w') \<and>
      class_of w' p = Some HRExcelReport) \<and>
   (\<exists>p w'. createHTMLReport 4 \<lparr>heap = [EmailNotificationFactory, SMSNotificationFactory,
        PushNotificationFactory, SalesReportFactory, HRReportFactory], console = []\<rparr> = Inr (p, w') \<and>
      class_of w' p = Some HRHTMLReport)"
proof -
  let ?W = "\<lparr>heap = [EmailNotificationFactory, SMSNotificationFactory,
        PushNotificationFactory, SalesReportFactory, HRReportFactory], console = []\<rparr>"
  have h0: "class_of ?W 0 = Some EmailNotificationFactory" by (simp add: class_of_def)
  have h1: "class_of ?W 1 = Some SMSNotificationFactory" by (simp add: class_of_def)
  have h2: "class_of ?W 2 = Some PushNotificationFactory" by (simp add: class_of_def)
  have h3: "class_of ?W 3 = Some SalesReportFactory" by (simp add: class_of_def)
  have h4: "class_of ?W 4 = Some HRReportFactory" by (simp add: class_of_def)
  show ?thesis
    using creator_product_round_trip [OF h0] creator_product_round_trip [OF h1]
      creator_product_round_trip [OF h2] creator_product_round_trip [OF h3]
      creator_product_round_trip [OF h4]
    by simp
qed

text \<open>
  Claim C1. For each report factory, the three creation operations return a PDF, an Excel
  and an HTML report of the factory's own department, and the client, which creates and
  generates all three, appends exactly three lines to the console, each starting with the
  name of that department and none with the name of the other one.
\<close>

theorem report_factory_single_department:
  assumes "class_of w factory = Some c" and "extends_AbstractReportFactory c"
    and "department_of c = Some d"
  shows "(\<exists>p w' pc. createPDFReport factory w = Inr (p, w') \<and> class_of w' p = Some pc \<and>
            department_of pc = Some d \<and> family_of pc = Some PDF) \<and>
         (\<exists>p w' pc. createExcelReport factory w = Inr (p, w') \<and> class_of w' p = Some pc \<and>
            department_of pc = Some d \<and> family_of pc = Some Excel) \<and>
         (\<exists>p w' pc. createHTMLReport factory w = Inr (p, w') \<and> class_of w' p = Some pc \<and>
            department_of pc = Some d \<and> family_of pc = Some HTML) \<and>
         (\<exists>w' l1 l2 l3. someClientCode_report factory w = Inr w' \<and>
            console w' = console w @ [l1, l2, l3] \<and>
            tagged d l1 \<and> tagged d l2 \<and> tagged d l3 \<and>
            \<not> tagged (other_department d) l1 \<and> \<not> tagged (other_department d) l2 \<and>
            \<not> tagged (other_department d) l3)"
proof (cases c)
  case SalesReportFactory
  with assms have f: "class_of w factory = Some SalesReportFactory" and d: "d = Sales"
    by simp_all
  show ?thesis
    using f someClientCode_report_Sales [OF f]
    by (simp add: d report_defs world_simps tagged_def)
next
  case HRReportFactory
  with assms have f: "class_of w factory = Some HRReportFactory" and d: "d = HR"
    by simp_all
  show ?thesis
    using f someClientCode_report_HR [OF f]
    by (simp add: d report_defs world_simps tagged_def)
qed (use assms in simp_all)

theorem report_factory_single_department_witness:
  "class_of \<lparr>heap = [SalesReportFactory, HRReportFactory], console = []\<rparr> 1 = Some HRReportFactory \<and>
   extends_AbstractReportFactory HRReportFactory \<and>
   department_of HRReportFactory = Some HR \<and>
   (\<exists>p w' pc. createPDFReport 1 \<lparr>heap = [SalesReportFactory, HRReportFactory], console = []\<rparr>
        = Inr (p, w') \<and>
      class_of w' p = Some pc \<and> department_of pc = Some HR \<and> family_of pc = Some PDF) \<and>
   (\<exists>p w' pc. createExcelReport 1 \<lparr>heap = [SalesReportFactory, HRReportFactory], console = []\<rparr>
        = Inr (p, w') \<and>
      class_of w' p = Some pc \<and> department_of pc = Some HR \<and> family_of pc = Some Excel) \<and>
   (\<exists>p w' pc. createHTMLReport 1 \<lparr>heap = [SalesReportFactory, HRReportFactory], console = []\<rparr>
        = Inr (p, w') \<and>
      class_of w' p = Some pc \<and> department_of pc = Some HR \<and> family_of pc = Some HTML) \<and>
   (\<exists>w' l1 l2 l3.
      someClientCode_report 1 \<lparr>heap = [SalesReportFactory, HRReportFactory], console = []\<rparr>
        = Inr w' \<and>
      console w' = [l1, l2, l3] \<and> tagged HR l1 \<and> tagged HR l2 \<and> tagged HR l3 \<and>
      \<not> tagged Sales l1 \<and> \<not> tagged Sales l2 \<and> \<not> tagged Sales l3)"
proof -
  let ?W = "\<lparr>heap = [SalesReportFactory, HRReportFactory], console = []\<rparr>"
  have h: "class_of ?W 1 = Some HRReportFactory" by (simp add: class_of_def)
  have e: "extends_AbstractReportFactory HRReportFactory" by simp
  have d: "department_of HRReportFactory = Some HR" by simp
  show ?thesis using h e d report_factory_single_department [OF h e d] by simp
qed

section \<open>The demonstration\<close>

lemma factory_method_usage_result:
  "factory_method_usage w =
     Inr (w\<lparr>heap := heap w @ [EmailNotificationFactory, EmailNotification,
              SMSNotificationFactory, SMSNotification,
              PushNotificationFactory, PushNotification],
            console := console w @ [''Email notification sent'', ''Notification registered'',
              ''SMS notification sent'', ''Notification registered'',
              ''Push notification sent'', ''Notification registered'']\<rparr>)"
  by (simp add: factory_method_usage_def someClientCode_notification_def new_object_def
      and_then_def sendNotification_EmailFactory sendNotification_SMSFactory
      sendNotification_PushFactory class_of_def nth_append console_log_def)

lemma abstract_factory_usage_result:
  "abstract_factory_usage w =
     Inr (w\<lparr>heap := heap w @ [SalesReportFactory, SalesPDFReport, SalesExcelReport,
              SalesHTMLReport, HRReportFactory, HRPDFReport, HRExcelReport, HRHTMLReport],
            console := console w @ [''Sales PDF report generated'',
              ''Sales Excel report generated'', ''Sales HTML report generated'',
              ''HR PDF report generated'', ''HR Excel report generated'',
              ''HR HTML report generated'']\<rparr>)"
  by (simp add: abstract_factory_usage_def new_object_def and_then_def
      someClientCode_report_Sales someClientCode_report_HR class_of_def nth_append)

text \<open>
  Claim C3. From any starting world the demonstration succeeds. The factory-method unit
  dispatches the Email, SMS and Push factories and prints six lines (each product's line
  followed by the confirmation line); the abstract-factory unit then runs the client on the
  Sales and the HR factory and prints six more (one per generated report): twelve lines in
  all, listed here for a run that starts with an empty console.
\<close>

theorem demonstration_output:
  "\<exists>w1 w2. factory_method_usage w = Inr w1 \<and>
     console w1 = console w @ [''Email notification sent'', ''Notification registered'',
       ''SMS notification sent'', ''Notification registered'',
       ''Push notification sent'', ''Notification registered''] \<and>
     abstract_factory_usage w1 = Inr w2 \<and>
     console w2 = console w1 @ [''Sales PDF report generated'',
       ''Sales Excel report generated'', ''Sales HTML report generated'',
       ''HR PDF report generated'', ''HR Excel report generated'',
       ''HR HTML report generated''] \<and>
     demonstration w = Inr w2 \<and>
     length (emitted w w2) = 12 \<and>
     (\<exists>w'. demonstration initial = Inr w' \<and>
        console w' =
          [''Email notification sent'', ''Notification registered'',
           ''SMS notification sent'', ''Notification registered'',
           ''Push notification sent'', ''Notification registered'',
           ''Sales PDF report generated'', ''Sales Excel report generated'',
           ''Sales HTML report generated'', ''HR PDF report generated'',
           ''HR Excel report generated'', ''HR HTML report generated''])"
  by (simp add: demonstration_def and_then_def factory_method_usage_result
      abstract_factory_usage_result emitted_def initial_def)

section \<open>Products: success and the lines they print\<close>

lemma console_log_inject: "(console_log a w = console_log b w) = (a = b)"
proof
  assume "console_log a w = console_log b w"
  then have "console (console_log a w) = console (console_log b w)" by simp
  then show "a = b" by (simp add: console_console_log)
qed simp

lemma product_sendNotification:
  assumes "class_of w r = Some c" and "implements_INotification c"
  shows "\<exists>line. sendNotification r w = Inr (console_log line w)"
  using assms by (cases c) (simp_all add: sendNotification.simps console_log_inject)

lemma report_generate:
  assumes "class_of w r = Some c" and "family_of c \<noteq> None"
  shows "\<exists>line. generate r w = Inr (console_log line w)"
  using assms by (cases c) (simp_all add: generate_def console_log_inject)

text \<open>
  Claim C8. No operation fails on a receiver of a class that has it: a notification can be
  sent, a report generated, a notification factory can create its product and be dispatched
  (directly or through the client), and a report factory can create each of its three
  reports and serve the client. Every concrete class is of one of these four kinds, so the
  TypeError branch is taken only by a receiver that lacks the method called.
\<close>

theorem every_operation_succeeds:
  assumes "class_of w r = Some c"
  shows "(implements_INotification c \<longrightarrow> (\<exists>w'. sendNotification r w = Inr w')) \<and>
         (family_of c \<noteq> None \<longrightarrow> (\<exists>w'. generate r w = Inr w')) \<and>
         (extends_NotificationFactory c \<longrightarrow>
            (\<exists>p w'. createNotification r w = Inr (p, w')) \<and>
            (\<exists>w'. sendNotification r w = Inr w') \<and>
            (\<exists>w'. someClientCode_notification r w = Inr w')) \<and>
         (extends_AbstractReportFactory c \<longrightarrow>
            (\<exists>p w'. createPDFReport r w = Inr (p, w')) \<and>
            (\<exists>p w'. createExcelReport r w = Inr (p, w')) \<and>
            (\<exists>p w'. createHTMLReport r w = Inr (p, w')) \<and>
            (\<exists>w'. someClientCode_report r w = Inr w')) \<and>
         (implements_INotification c \<or> extends_NotificationFactory c \<or>
          extends_AbstractReportFactory c \<or> family_of c \<noteq> None)"
proof (intro conjI impI)
  assume "implements_INotification c"
  with assms show "\<exists>w'. sendNotification r w = Inr w'"
    using product_sendNotification by blast
next
  assume "family_of c \<noteq> None"
  with assms show "\<exists>w'. generate r w = Inr w'"
    using report_generate by blast
next
  assume "extends_NotificationFactory c"
  with assms show "\<exists>p w'. createNotification r w = Inr (p, w')"
    by (cases c) (simp_all add: createNotification_def new_object_def)
next
  assume "extends_NotificationFactory c"
  with assms show "\<exists>w'. sendNotification r w = Inr w'"
    using factory_sendNotification_console by blast
next
  assume "extends_NotificationFactory c"
  with assms show "\<exists>w'. someClientCode_notification r w = Inr w'"
    unfolding someClientCode_notification_def
    using factory_sendNotification_console by blast
next
  assume "extends_AbstractReportFactory c"
  with assms show "\<exists>p w'. createPDFReport r w = Inr (p, w')"
    by (cases c) (simp_all add: createPDFReport_def new_object_def)
next
  assume "extends_AbstractReportFactory c"
  with assms show "\<exists>p w'. createExcelReport r w = Inr (p, w')"
    by (cases c) (simp_all add: createExcelReport_def new_object_def)
next
  assume "extends_AbstractReportFactory c"
  with assms show "\<exists>p w'. createHTMLReport r w = Inr (p, w')"
    by (cases c) (simp_all add: createHTMLReport_def new_object_def)
next
  assume "extends_AbstractReportFactory c"
  with assms show "\<exists>w'. someClientCode_report r w = Inr w'"
    by (cases c) (simp_all add: someClientCode_report_Sales someClientCode_report_HR)
next
  show "implements_INotification c \<or> extends_NotificationFactory c \<or>
        extends_AbstractReportFactory c \<or> family_of c \<noteq> None"
    by (cases c) simp_all
qed

theorem every_operation_succeeds_witness:
  "(\<exists>w'. sendNotification 0 \<lparr>heap = [PushNotification, HRExcelReport,
        SMSNotificationFactory, SalesReportFactory], console = []\<rparr> = Inr w') \<and>
   (\<exists>w'. generate 1 \<lparr>heap = [PushNotification, HRExcelReport,
        SMSNotificationFactory, SalesReportFactory], console = []\<rparr> = Inr w') \<and>
   (\<exists>p w'. createNotification 2 \<lparr>heap = [PushNotification, HRExcelReport,
        SMSNotificationFactory, SalesReportFactory], console = []\<rparr> = Inr (p, w')) \<and>
   (\<exists>w'. sendNotification 2 \<lparr>heap = [PushNotification, HRExcelReport,
        SMSNotificationFactory, SalesReportFactory], console = []\<rparr> = Inr w') \<and>
   (\<exists>p w'. createPDFReport 3 \<lparr>heap = [PushNotification, HRExcelReport,
        SMSNotificationFactory, SalesReportFactory], console = []\<rparr> = Inr (p, w')) \<and>
   (\<exists>p w'. createExcelReport 3 \<lparr>heap = [PushNotification, HRExcelReport,
        SMSNotificationFactory, SalesReportFactory], console = []\<rparr> = Inr (p, w')) \<and>
   (\<exists>p w'. createHTMLReport 3 \<lparr>heap = [PushNotification, HRExcelReport,
        SMSNotificationFactory, SalesReportFactory], console = []\<rparr> = Inr (p, w')) \<and>
   (\<exists>w'. someClientCode_report 3 \<lparr>heap = [PushNotification, HRExcelReport,
        SMSNotificationFactory, SalesReportFactory], console = []\<rparr> = Inr w')"
proof -
  let ?W = "\<lparr>heap = [PushNotification, HRExcelReport,
        SMSNotificationFactory, SalesReportFactory], console = []\<rparr>"
  have h0: "class_of ?W 0 = Some PushNotification" by (simp add: class_of_def)
  have h1: "class_of ?W 1 = Some HRExcelReport" by (simp add: class_of_def)
  have h2: "class_of ?W 2 = Some SMSNotificationFactory" by (simp add: class_of_def)
  have h3: "class_of ?W 3 = Some SalesReportFactory" by (simp add: class_of_def)
  show ?thesis
    using every_operation_succeeds [OF h0] every_operation_succeeds [OF h1]
      every_operation_succeeds [OF h2] every_operation_succeeds [OF h3]
    by simp
qed

text \<open>
  Claim C10. The operation of a product appends exactly one line to the console, and the
  lines of two products are equal exactly when the products are of the same class: the nine
  lines are pairwise distinct, so a line identifies the class that printed it, and with it
  the department and the family of a report.
\<close>

theorem product_lines_distinct:
  assumes "class_of w r = Some c" and "is_product c"
    and "class_of v s = Some d" and "is_product d"
  shows "\<exists>lc ld. product_operation r w = Inr (console_log lc w) \<and>
           product_operation s v = Inr (console_log ld v) \<and>
           (lc = ld) = (c = d)"
  using assms unfolding is_product_def product_operation_def
  by (cases c; cases d; simp add: sendNotification.simps generate_def console_log_inject)

theorem product_lines_distinct_witness:
  "is_product EmailNotification \<and> is_product SalesPDFReport \<and>
   (\<exists>lc ld.
      product_operation 0 \<lparr>heap = [EmailNotification, SalesPDFReport, EmailNotification],
          console = []\<rparr>
        = Inr (console_log lc \<lparr>heap = [EmailNotification, SalesPDFReport, EmailNotification],
            console = []\<rparr>) \<and>
      product_operation 1 \<lparr>heap = [EmailNotification, SalesPDFReport, EmailNotification],
          console = []\<rparr>
        = Inr (console_log ld \<lparr>heap = [EmailNotification, SalesPDFReport, EmailNotification],
            console = []\<rparr>) \<and>
      lc \<noteq> ld) \<and>
   (\<exists>lc ld.
      product_operation 0 \<lparr>heap = [EmailNotification, SalesPDFReport, EmailNotification],
          console = []\<rparr>
        = Inr (console_log lc \<lparr>heap = [EmailNotification, SalesPDFReport, EmailNotification],
            console = []\<rparr>) \<and>
      product_operation 2 \<lparr>heap = [EmailNotification, SalesPDFReport, EmailNotification],
          console = []\<rparr>
        = Inr (console_log ld \<lparr>heap = [EmailNotification, SalesPDFReport, EmailNotification],
            console = []\<rparr>) \<and>
      lc = ld)"
proof -
  let ?W = "\<lparr>heap = [EmailNotification, SalesPDFReport, EmailNotification], console = []\<rparr>"
  have h0: "class_of ?W 0 = Some EmailNotification" by (simp add: class_of_def)
  have h1: "class_of ?W 1 = Some SalesPDFReport" by (simp add: class_of_def)
  have h2: "class_of ?W 2 = Some EmailNotification" by (simp add: class_of_def)
  have p0: "is_product EmailNotification" by (simp add: is_product_def)
  have p1: "is_product SalesPDFReport" by (simp add: is_product_def)
  show ?thesis
    using p0 p1 product_lines_distinct [OF h0 p0 h1 p1] product_lines_distinct [OF h0 p0 h2 p0]
    by simp
qed

section \<open>The order of the three report steps\<close>

lemma report_step_Sales:
  assumes "class_of w factory = Some SalesReportFactory"
  shows "report_step fam factory w =
           Inr (w\<lparr>heap := heap w @ [case fam of PDF \<Rightarrow> SalesPDFReport
                    | Excel \<Rightarrow> SalesExcelReport | HTML \<Rightarrow> SalesHTMLReport],
                  console := console w @ [case fam of PDF \<Rightarrow> ''Sales PDF report generated''
                    | Excel \<Rightarrow> ''Sales Excel report generated''
                    | HTML \<Rightarrow> ''Sales HTML report generated'']\<rparr>)"
  using assms class_of_allocated [OF assms]
  by (cases fam) (simp_all add: report_step_def report_defs console_log_def class_of_def nth_append)

lemma report_step_HR:
  assumes "class_of w factory = Some HRReportFactory"
  shows "report_step fam factory w =
           Inr (w\<lparr>heap := heap w @ [case fam of PDF \<Rightarrow> HRPDFReport
                    | Excel \<Rightarrow> HRExcelReport | HTML \<Rightarrow> HRHTMLReport],
                  console := console w @ [case fam of PDF \<Rightarrow> ''HR PDF report generated''
                    | Excel \<Rightarrow> ''HR Excel report generated''
                    | HTML \<Rightarrow> ''HR HTML report generated'']\<rparr>)"
  using assms class_of_allocated [OF assms]
  by (cases fam) (simp_all add: report_step_def report_defs console_log_def class_of_def nth_append)

lemma class_of_grow:
  assumes "class_of w r = Some c"
  shows "class_of (w\<lparr>heap := heap w @ cs, console := out\<rparr>) r = Some c"
  using assms by (auto simp: class_of_def nth_append split: if_splits)

lemma report_steps_Sales:
  assumes "class_of w factory = Some SalesReportFactory"
  shows "\<exists>w'. report_steps order factory w = Inr w' \<and>
           console w' = console w @ map (\<lambda>fam. case fam of PDF \<Rightarrow> ''Sales PDF report generated''
                    | Excel \<Rightarrow> ''Sales Excel report generated''
                    | HTML \<Rightarrow> ''Sales HTML report generated'') order"
  using assms
proof (induction order arbitrary: w)
  case Nil
  then show ?case by simp
next
  case (Cons fam fams)
  let ?w1 = "w\<lparr>heap := heap w @ [case fam of PDF \<Rightarrow> SalesPDFReport
                    | Excel \<Rightarrow> SalesExcelReport | HTML \<Rightarrow> SalesHTMLReport],
                  console := console w @ [case fam of PDF \<Rightarrow> ''Sales PDF report generated''
                    | Excel \<Rightarrow> ''Sales Excel report generated''
                    | HTML \<Rightarrow> ''Sales HTML report generated'']\<rparr>"
  have "class_of ?w1 factory = Some SalesReportFactory"
    using Cons.prems by (rule class_of_grow)
  from Cons.IH [OF this] show ?case
    by (simp add: report_step_Sales [OF Cons.prems] and_then_def)
qed

lemma report_steps_HR:
  assumes "class_of w factory = Some HRReportFactory"
  shows "\<exists>w'. report_steps order factory w = Inr w' \<and>
           console w' = console w @ map (\<lambda>fam. case fam of PDF \<Rightarrow> ''HR PDF report generated''
                    | Excel \<Rightarrow> ''HR Excel report generated''
                    | HTML \<Rightarrow> ''HR HTML report generated'') order"
  using assms
proof (induction order arbitrary: w)
  case Nil
  then show ?case by simp
next
  case (Cons fam fams)
  let ?w1 = "w\<lparr>heap := heap w @ [case fam of PDF \<Rightarrow> HRPDFReport
                    | Excel \<Rightarrow> HRExcelReport | HTML \<Rightarrow> HRHTMLReport],
                  console := console w @ [case fam of PDF \<Rightarrow> ''HR PDF report generated''
                    | Excel \<Rightarrow> ''HR Excel report generated''
                    | HTML \<Rightarrow> ''HR HTML report generated'']\<rparr>"
  have "class_of ?w1 factory = Some HRReportFactory"
    using Cons.prems by (rule class_of_grow)
  from Cons.IH [OF this] show ?case
    by (simp add: report_step_HR [OF Cons.prems] and_then_def)
qed

lemma someClientCode_report_steps:
  "someClientCode_report factory w = report_steps [PDF, Excel, HTML] factory w"
  by (simp add: someClientCode_report_def report_step_def and_then_def
      split: sum.splits prod.splits)

text \<open>
  Claim C6. The client is the three create-then-generate steps in the order PDF, Excel,
  HTML. For each report factory, running the three steps in any of their six orders
  succeeds and prints the same lines as the client, as a multiset. For
  \<^verbatim>\<open>SalesReportFactory\<close> these are "Sales PDF report generated", "Sales Excel report
  generated" and "Sales HTML report generated", and no line starts with "HR".
\<close>

theorem report_order_insignificant:
  assumes "class_of w factory = Some c" and "extends_AbstractReportFactory c"
    and "mset order = mset [PDF, Excel, HTML]"
  shows "\<exists>w' w''. someClientCode_report factory w = Inr w' \<and>
           report_steps [PDF, Excel, HTML] factory w = Inr w' \<and>
           report_steps order factory w = Inr w'' \<and>
           mset (emitted w w'') = mset (emitted w w') \<and>
           (c = SalesReportFactory \<longrightarrow>
              mset (emitted w w'') = {#''Sales PDF report generated'',
                ''Sales Excel report generated'', ''Sales HTML report generated''#} \<and>
              (\<forall>line \<in> set (emitted w w''). \<not> tagged HR line))"
proof (cases c)
  case SalesReportFactory
  with assms have f: "class_of w factory = Some SalesReportFactory" by simp
  let ?g = "\<lambda>fam. case fam of PDF \<Rightarrow> ''Sales PDF report generated''
                    | Excel \<Rightarrow> ''Sales Excel report generated''
                    | HTML \<Rightarrow> ''Sales HTML report generated''"
  obtain w' where w': "report_steps [PDF, Excel, HTML] factory w = Inr w'"
      "console w' = console w @ map ?g [PDF, Excel, HTML]"
    using report_steps_Sales [OF f] by blast
  obtain w'' where w'': "report_steps order factory w = Inr w''"
      "console w'' = console w @ map ?g order"
    using report_steps_Sales [OF f] by blast
  have e': "emitted w w' = map ?g [PDF, Excel, HTML]" using w'(2) by (simp add: emitted_def)
  have e'': "emitted w w'' = map ?g order" using w''(2) by (simp add: emitted_def)
  have "mset (map ?g order) = image_mset ?g (mset order)" by simp
  also have "\<dots> = image_mset ?g (mset [PDF, Excel, HTML])" using assms(3) by simp
  finally have m: "mset (emitted w w'') = mset (emitted w w')" using e' e'' by simp
  have s: "set (emitted w w'') = set (emitted w w')" using m by (rule mset_eq_setD)
  show ?thesis
    using w'(1) w''(1) m s someClientCode_report_steps [of factory w]
    by (simp add: e' tagged_def)
next
  case HRReportFactory
  with assms have f: "class_of w factory = Some HRReportFactory" by simp
  let ?g = "\<lambda>fam. case fam of PDF \<Rightarrow> ''HR PDF report generated''
                    | Excel \<Rightarrow> ''HR Excel report generated''
                    | HTML \<Rightarrow> ''HR HTML report generated''"
  obtain w' where w': "report_steps [PDF, Excel, HTML] factory w = Inr w'"
      "console w' = console w @ map ?g [PDF, Excel, HTML]"
    using report_steps_HR [OF f] by blast
  obtain w'' where w'': "report_steps order factory w = Inr w''"
      "console w'' = console w @ map ?g order"
    using report_steps_HR [OF f] by blast
  have e': "emitted w w' = map ?g [PDF, Excel, HTML]" using w'(2) by (simp add: emitted_def)
  have e'': "emitted w w'' = map ?g order" using w''(2) by (simp add: emitted_def)
  have "mset (map ?g order) = image_mset ?g (mset order)" by simp
  also have "\<dots> = image_mset ?g (mset [PDF, Excel, HTML])" using assms(3) by simp
  finally have m: "mset (emitted w w'') = mset (emitted w w')" using e' e'' by simp
  show ?thesis
    using w'(1) w''(1) m someClientCode_report_steps [of factory w] HRReportFactory
    by simp
qed (use assms in simp_all)

theorem report_order_insignificant_witness:
  "class_of \<lparr>heap = [SalesReportFactory], console = []\<rparr> 0 = Some SalesReportFactory \<and>
   extends_AbstractReportFactory SalesReportFactory \<and>
   mset [HTML, PDF, Excel] = mset [PDF, Excel, HTML] \<and>
   (\<exists>w' w''.
      someClientCode_report 0 \<lparr>heap = [SalesReportFactory], console = []\<rparr> = Inr w' \<and>
      report_steps [HTML, PDF, Excel] 0 \<lparr>heap = [SalesReportFactory], console = []\<rparr> = Inr w'' \<and>
      mset (emitted \<lparr>heap = [SalesReportFactory], console = []\<rparr> w'')
        = mset (emitted \<lparr>heap = [SalesReportFactory], console = []\<rparr> w') \<and>
      mset (emitted \<lparr>heap = [SalesReportFactory], console = []\<rparr> w'')
        = {#''Sales PDF report generated'', ''Sales Excel report generated'',
            ''Sales HTML report generated''#} \<and>
      list_all (\<lambda>line. \<not> tagged HR line)
        (emitted \<lparr>heap = [SalesReportFactory], console = []\<rparr> w''))"
proof -
  let ?W = "\<lparr>heap = [SalesReportFactory], console = []\<rparr>"
  have h: "class_of ?W 0 = Some SalesReportFactory" by (simp add: class_of_def)
  have e: "extends_AbstractReportFactory SalesReportFactory" by simp
  have m: "mset [HTML, PDF, Excel] = mset [PDF, Excel, HTML]" by simp
  show ?thesis
    using h e m report_order_insignificant [OF h e m]
    by (auto simp: list_all_iff)
qed

section \<open>Repeated creation\<close>

lemma create_times_closed:
  assumes step: "\<And>v. class_of v factory = Some c \<Longrightarrow>
      create op factory v = Inr (length (heap v), v\<lparr>heap := heap v @ [pc]\<rparr>)"
    and "class_of w factory = Some c"
  shows "create_times n op factory w =
           Inr ([length (heap w)..<length (heap w) + n], w\<lparr>heap := heap w @ replicate n pc\<rparr>)"
  using assms(2)
proof (induction n arbitrary: w)
  case 0
  then show ?case by simp
next
  case (Suc n)
  let ?w1 = "w\<lparr>heap := heap w @ [pc]\<rparr>"
  have "class_of ?w1 factory = Some c"
    using Suc.prems class_of_allocated [OF Suc.prems] by (simp add: class_of_alloc)
  from Suc.IH [OF this] show ?case
    by (simp add: step [OF Suc.prems] and_then_def upt_conv_Cons)
qed

lemma create_times_summary:
  assumes step: "\<And>v. class_of v factory = Some c \<Longrightarrow>
      create op factory v = Inr (length (heap v), v\<lparr>heap := heap v @ [pc]\<rparr>)"
    and use: "\<And>v p. class_of v p = Some pc \<Longrightarrow>
      product_operation p v = Inr (console_log line v)"
    and "class_of w factory = Some c"
  shows "\<exists>products w'. create_times n op factory w = Inr (products, w') \<and>
           length products = n \<and> distinct products \<and>
           console w' = console w \<and> take (length (heap w)) (heap w') = heap w \<and>
           (\<forall>p \<in> set products. class_of w p = None \<and> class_of w' p = Some pc \<and>
              product_operation p w' = Inr (console_log line w'))"
proof -
  let ?w' = "w\<lparr>heap := heap w @ replicate n pc\<rparr>"
  have fresh: "class_of w p = None \<and> class_of ?w' p = Some pc"
    if "p \<in> set [length (heap w)..<length (heap w) + n]" for p
    using that by (auto simp: class_of_def nth_append)
  show ?thesis
    using create_times_closed [OF step assms(3), of n] fresh use
    by simp
qed

text \<open>
  Claim C7. Invoking one creation operation of a factory \<open>n\<close> times in a row succeeds and
  returns \<open>n\<close> objects that are pairwise distinct, were not allocated before, and are all
  of one class, with one line that the operation of each of them prints. The calls print
  nothing and leave every object that existed before as it was.
\<close>

theorem repeated_creation_identical:
  assumes "class_of w factory = Some c" and "offers c op"
  shows "\<exists>pc line products w'. create_times n op factory w = Inr (products, w') \<and>
           length products = n \<and> distinct products \<and>
           console w' = console w \<and> take (length (heap w)) (heap w') = heap w \<and>
           (\<forall>p \<in> set products. class_of w p = None \<and> class_of w' p = Some pc \<and>
              product_operation p w' = Inr (console_log line w'))"
proof -
  let ?P = "\<lambda>pc line. \<exists>products w'. create_times n op factory w = Inr (products, w') \<and>
           length products = n \<and> distinct products \<and>
           console w' = console w \<and> take (length (heap w)) (heap w') = heap w \<and>
           (\<forall>p \<in> set products. class_of w p = None \<and> class_of w' p = Some pc \<and>
              product_operation p w' = Inr (console_log line w'))"
  have summary: "?P pc line"
    if "\<And>v. class_of v factory = Some c \<Longrightarrow>
          create op factory v = Inr (length (heap v), v\<lparr>heap := heap v @ [pc]\<rparr>)"
      and "\<And>v p. class_of v p = Some pc \<Longrightarrow>
          product_operation p v = Inr (console_log line v)" for pc line
    using that assms(1) by (rule create_times_summary)
  have "\<exists>pc line.
      (\<forall>v. class_of v factory = Some c \<longrightarrow>
          create op factory v = Inr (length (heap v), v\<lparr>heap := heap v @ [pc]\<rparr>)) \<and>
      (\<forall>v p. class_of v p = Some pc \<longrightarrow>
          product_operation p v = Inr (console_log line v))"
  proof (cases op)
    case CreateNotification
    with assms(2) have "extends_NotificationFactory c" by simp
    then consider "c = EmailNotificationFactory" | "c = SMSNotificationFactory"
      | "c = PushNotificationFactory"
      by (cases c) simp_all
    then show ?thesis
    proof cases
      case 1
      show ?thesis
        by (rule exI [of _ EmailNotification], rule exI [of _ "''Email notification sent''"])
          (simp add: 1 CreateNotification createNotification_def new_object_def
            product_operation_def sendNotification.simps)
    next
      case 2
      show ?thesis
        by (rule exI [of _ SMSNotification], rule exI [of _ "''SMS notification sent''"])
          (simp add: 2 CreateNotification createNotification_def new_object_def
            product_operation_def sendNotification.simps)
    next
      case 3
      show ?thesis
        by (rule exI [of _ PushNotification], rule exI [of _ "''Push notification sent''"])
          (simp add: 3 CreateNotification createNotification_def new_object_def
            product_operation_def sendNotification.simps)
    qed
  next
    case CreatePDFReport
    with assms(2) have "extends_AbstractReportFactory c" by simp
    then consider "c = SalesReportFactory" | "c = HRReportFactory"
      by (cases c) simp_all
    then show ?thesis
    proof cases
      case 1
      show ?thesis
        by (rule exI [of _ SalesPDFReport], rule exI [of _ "''Sales PDF report generated''"])
          (simp add: 1 CreatePDFReport report_defs product_operation_def)
    next
      case 2
      show ?thesis
        by (rule exI [of _ HRPDFReport], rule exI [of _ "''HR PDF report generated''"])
          (simp add: 2 CreatePDFReport report_defs product_operation_def)
    qed
  next
    case CreateExcelReport
    with assms(2) have "extends_AbstractReportFactory c" by simp
    then consider "c = SalesReportFactory" | "c = HRReportFactory"
      by (cases c) simp_all
    then show ?thesis
    proof cases
      case 1
      show ?thesis
        by (rule exI [of _ SalesExcelReport], rule exI [of _ "''Sales Excel report generated''"])
          (simp add: 1 CreateExcelReport report_defs product_operation_def)
    next
      case 2
      show ?thesis
        by (rule exI [of _ HRExcelReport], rule exI [of _ "''HR Excel report generated''"])
          (simp add: 2 CreateExcelReport report_defs product_operation_def)
    qed
  next
    case CreateHTMLReport
    with assms(2) have "extends_AbstractReportFactory c" by simp
    then consider "c = SalesReportFactory" | "c = HRReportFactory"
      by (cases c) simp_all
    then show ?thesis
    proof cases
      case 1
      show ?thesis
        by (rule exI [of _ SalesHTMLReport], rule exI [of _ "''Sales HTML report generated''"])
          (simp add: 1 CreateHTMLReport report_defs product_operation_def)
    next
      case 2
      show ?thesis
        by (rule exI [of _ HRHTMLReport], rule exI [of _ "''HR HTML report generated''"])
          (simp add: 2 CreateHTMLReport report_defs product_operation_def)
    qed
  qed
  then obtain pc line where
    "\<And>v. class_of v factory = Some c \<Longrightarrow>
          create op factory v = Inr (length (heap v), v\<lparr>heap := heap v @ [pc]\<rparr>)"
    "\<And>v p. class_of v p = Some pc \<Longrightarrow>
          product_operation p v = Inr (console_log line v)"
    by blast
  then have "?P pc line" by (rule summary)
  then show ?thesis by blast
qed

theorem repeated_creation_identical_witness:
  "class_of \<lparr>heap = [HRReportFactory], console = []\<rparr> 0 = Some HRReportFactory \<and>
   offers HRReportFactory CreateExcelReport \<and>
   (\<exists>pc line products w'.
      create_times 3 CreateExcelReport 0 \<lparr>heap = [HRReportFactory], console = []\<rparr>
        = Inr (products, w') \<and>
      length products = 3 \<and> distinct products \<and> console w' = [] \<and>
      take 1 (heap w') = [HRReportFactory] \<and>
      list_all (\<lambda>p. class_of \<lparr>heap = [HRReportFactory], console = []\<rparr> p = None \<and>
          class_of w' p = Some pc \<and>
          product_operation p w' = Inr (console_log line w')) products)"
proof -
  let ?W = "\<lparr>heap = [HRReportFactory], console = []\<rparr>"
  have h: "class_of ?W 0 = Some HRReportFactory" by (simp add: class_of_def)
  have e: "offers HRReportFactory CreateExcelReport" by simp
  from repeated_creation_identical [OF h e, of 3]
  obtain pc line products w' where
    "create_times 3 CreateExcelReport 0 ?W = Inr (products, w')"
    "length products = 3" "distinct products" "console w' = []"
    "take 1 (heap w') = [HRReportFactory]"
    "list_all (\<lambda>p. class_of ?W p = None \<and> class_of w' p = Some pc \<and>
          product_operation p w' = Inr (console_log line w')) products"
    unfolding list_all_iff by auto
  with h e show ?thesis by blast
qed

end
